theory Spec2Isabelle
  imports Complex_Main "HOL-Library.Word" "HOL-Library.Sublist"
begin

section \<open>The PDF editor component (src/components/PDFEditor.tsx)\<close>

text \<open>
  The component keeps its state in React state hooks and changes it in event handlers.
  Each handler is modelled as a function from the state at the last render (and the
  event) to the next state and the notifications (toasts) it shows.

  JavaScript numbers are modelled as real numbers: the arithmetic of the handlers is
  exact in the model, rounding of IEEE doubles, NaN and the infinities are not
  represented. A JavaScript string is the list of its UTF-16 code units. The texts of the
  notifications are literals of the source and are kept as plain strings.
\<close>

subsection \<open>Data model\<close>

type_synonym jsstring = "16 word list"

text \<open>interface TextAnnotation: id, x, y, text, fontSize, color.\<close>

record TextAnnotation =
  ta_id :: jsstring
  ta_x :: real
  ta_y :: real
  ta_text :: jsstring
  ta_fontSize :: real
  ta_color :: jsstring

text \<open>interface BlurArea: id, x, y, width, height.\<close>

record BlurArea =
  ba_id :: jsstring
  ba_x :: real
  ba_y :: real
  ba_width :: real
  ba_height :: real

datatype tool = Select | Text | Blur | Erase

text \<open>A selected file: its declared media type and its bytes.\<close>

record File =
  file_type :: string
  file_bytes :: "8 word list"

text \<open>The state hooks of the component, in the order of their declaration.\<close>

record state =
  pdfFile :: "File option"
  numPages :: int
  currentPage :: int
  scale :: real
  activeTool :: tool
  textAnnotations :: "TextAnnotation list"
  blurAreas :: "BlurArea list"
  isDrawing :: bool
  startPoint :: "(real \<times> real) option"
  newText :: jsstring
  fontSize :: real
  textColor :: jsstring
  pdfLoading :: bool

datatype toast = ToastSuccess string | ToastError string | ToastInfo string

text \<open>
  What a handler reads from the browser: the pointer position of the event, the bounding
  rectangle of the canvas element (\<open>None\<close> when \<open>canvasRef.current\<close> is null) and the
  clock \<open>Date.now()\<close> in milliseconds.
\<close>

record mouse_event =
  clientX :: real
  clientY :: real

record dom_rect =
  rect_left :: real
  rect_top :: real

subsection \<open>Built-in functions of the language\<close>

text \<open>
  The code units that \<open>String.prototype.trim\<close> strips: the WhiteSpace and
  LineTerminator code points of ECMAScript (all of them in the basic plane).
\<close>

definition isWhiteSpace :: "16 word \<Rightarrow> bool" where
  "isWhiteSpace c \<longleftrightarrow>
     c = 0x0009 \<or> c = 0x000A \<or> c = 0x000B \<or> c = 0x000C \<or> c = 0x000D \<or> c = 0x0020 \<or>
     c = 0x00A0 \<or> c = 0x1680 \<or> (0x2000 \<le> c \<and> c \<le> 0x200A) \<or> c = 0x2028 \<or>
     c = 0x2029 \<or> c = 0x202F \<or> c = 0x205F \<or> c = 0x3000 \<or> c = 0xFEFF"

definition trim :: "jsstring \<Rightarrow> jsstring" where
  "trim s = rev (dropWhile isWhiteSpace (rev (dropWhile isWhiteSpace s)))"

text \<open>\<open>Number.prototype.toString\<close> on an integer: its decimal digits, with a sign.\<close>

fun digits :: "nat \<Rightarrow> jsstring" where
  "digits n = (if n < 10 then [0x30 + of_nat n] else digits (n div 10) @ [0x30 + of_nat (n mod 10)])"

declare digits.simps [simp del]

definition toString :: "int \<Rightarrow> jsstring" where
  "toString n = (if n < 0 then 0x2D # digits (nat (- n)) else digits (nat n))"

subsection \<open>Coordinates\<close>

text \<open>
  The handlers map a pointer position to document space by
  \<open>(event.clientX - rect.left) / scale\<close>, and likewise for y (lines 95-96, 124-125,
  133-134, 170-171). The overlay places a stored coordinate at \<open>annotation.x * scale\<close>
  inside the canvas element (lines 567-569 and 586-589).
\<close>

definition toDocumentSpace :: "real \<Rightarrow> real \<Rightarrow> real \<Rightarrow> real" where
  "toDocumentSpace client origin sc = (client - origin) / sc"


subsection \<open>Pointer handlers\<close>

text \<open>handleMouseDown (lines 118-163).\<close>

definition handleMouseDown :: "dom_rect option \<Rightarrow> state \<Rightarrow> mouse_event \<Rightarrow> state \<times> toast list" where
  "handleMouseDown canvas s e =
     (if activeTool s = Blur then
        (case canvas of
           None \<Rightarrow> (s, [])
         | Some rect \<Rightarrow>
             let x = toDocumentSpace (clientX e) (rect_left rect) (scale s);
                 y = toDocumentSpace (clientY e) (rect_top rect) (scale s)
             in (s\<lparr>startPoint := Some (x, y), isDrawing := True\<rparr>, []))
      else if activeTool s = Erase then
        (case canvas of
           None \<Rightarrow> (s, [])
         | Some rect \<Rightarrow>
             let x = toDocumentSpace (clientX e) (rect_left rect) (scale s);
                 y = toDocumentSpace (clientY e) (rect_top rect) (scale s)
             in (s\<lparr>textAnnotations :=
                      filter (\<lambda>annotation.
                                sqrt ((ta_x annotation - x)\<^sup>2 + (ta_y annotation - y)\<^sup>2) > 30)
                             (textAnnotations s),
                    blurAreas :=
                      filter (\<lambda>area. \<not> (x \<ge> ba_x area \<and> x \<le> ba_x area + ba_width area \<and>
                                         y \<ge> ba_y area \<and> y \<le> ba_y area + ba_height area))
                             (blurAreas s)\<rparr>,
                 [ToastSuccess ''Annotation erased'']))
      else (s, []))"

text \<open>handleMouseUp (lines 165-200).\<close>

definition handleMouseUp :: "dom_rect option \<Rightarrow> int \<Rightarrow> state \<Rightarrow> mouse_event \<Rightarrow> state \<times> toast list" where
  "handleMouseUp canvas now s e =
     (let (s1, toasts) =
        (if isDrawing s \<and> startPoint s \<noteq> None \<and> canvas \<noteq> None \<and> activeTool s = Blur then
           let rect = the canvas;
               (sx, sy) = the (startPoint s);
               endX = toDocumentSpace (clientX e) (rect_left rect) (scale s);
               endY = toDocumentSpace (clientY e) (rect_top rect) (scale s);
               width = \<bar>endX - sx\<bar>;
               height = \<bar>endY - sy\<bar>;
               x = min sx endX;
               y = min sy endY
           in if width > 10 \<and> height > 10
              then (s\<lparr>blurAreas := blurAreas s @
                        [\<lparr>ba_id = toString now, ba_x = x, ba_y = y,
                          ba_width = width, ba_height = height\<rparr>]\<rparr>,
                    [ToastSuccess ''Blur area added''])
              else (s, [ToastError ''Blur area too small - drag a larger area''])
         else (s, []))
      in (s1\<lparr>isDrawing := False, startPoint := None\<rparr>, toasts))"

text \<open>handleCanvasClick (lines 84-116). A string is falsy exactly when it is empty.\<close>

definition handleCanvasClick :: "dom_rect option \<Rightarrow> int \<Rightarrow> state \<Rightarrow> mouse_event \<Rightarrow> state \<times> toast list" where
  "handleCanvasClick canvas now s e =
     (case canvas of
        None \<Rightarrow> (s, [])
      | Some rect \<Rightarrow>
          if activeTool s \<noteq> Text then (s, [])
          else if trim (newText s) = [] then
            (s, [ToastError ''Please enter text before placing it on the PDF''])
          else
            let x = toDocumentSpace (clientX e) (rect_left rect) (scale s);
                y = toDocumentSpace (clientY e) (rect_top rect) (scale s);
                annotation = \<lparr>ta_id = toString now, ta_x = x, ta_y = y, ta_text = newText s,
                              ta_fontSize = fontSize s, ta_color = textColor s\<rparr>
            in (s\<lparr>textAnnotations := textAnnotations s @ [annotation], newText := []\<rparr>,
                [ToastSuccess ''Text annotation added'']))"

subsection \<open>Document loading\<close>

text \<open>The initial values of the state hooks (lines 36-48).\<close>

definition initial_state :: state where
  "initial_state =
     \<lparr>pdfFile = None, numPages = 0, currentPage = 1, scale = 1.0, activeTool = Select,
      textAnnotations = [], blurAreas = [], isDrawing = False, startPoint = None,
      newText = [], fontSize = 16, textColor = map of_char ''#000000'', pdfLoading = False\<rparr>"

text \<open>The decimal digits of a count inside a notification.\<close>

fun show_nat :: "nat \<Rightarrow> string" where
  "show_nat n = (if n < 10 then [char_of (48 + n)] else show_nat (n div 10) @ [char_of (48 + n mod 10)])"

declare show_nat.simps [simp del]

definition show_int :: "int \<Rightarrow> string" where
  "show_int n = (if n < 0 then CHR ''-'' # show_nat (nat (- n)) else show_nat (nat n))"

text \<open>onDocumentLoadSuccess (lines 53-59) and onDocumentLoadError (lines 61-65).\<close>

definition onDocumentLoadSuccess :: "int \<Rightarrow> state \<Rightarrow> state \<times> toast list" where
  "onDocumentLoadSuccess n s =
     (s\<lparr>numPages := n, currentPage := 1, pdfLoading := False\<rparr>,
      [ToastSuccess (''PDF loaded successfully! '' @ show_int n @ '' pages found.'')])"

definition onDocumentLoadError :: "state \<Rightarrow> state \<times> toast list" where
  "onDocumentLoadError s =
     (s\<lparr>pdfLoading := False\<rparr>, [ToastError ''Failed to load PDF file. Please try again.''])"

text \<open>handleFileUpload (lines 67-82); the argument is \<open>event.target.files?.[0]\<close>.\<close>

definition handleFileUpload :: "File option \<Rightarrow> state \<Rightarrow> state \<times> toast list" where
  "handleFileUpload selected s =
     (case selected of
        None \<Rightarrow> (s, [ToastError ''Please select a valid PDF file''])
      | Some f \<Rightarrow>
          if file_type f = ''application/pdf'' then
            (s\<lparr>pdfLoading := True, pdfFile := Some f, textAnnotations := [], blurAreas := [],
               currentPage := 1\<rparr>,
             [ToastSuccess ''PDF file selected, loading...''])
          else (s, [ToastError ''Please select a valid PDF file'']))"

subsection \<open>Removal from the list, zoom and page navigation\<close>

datatype kind = TextKind | BlurKind

text \<open>removeAnnotation (lines 202-209).\<close>

definition removeAnnotation :: "jsstring \<Rightarrow> kind \<Rightarrow> state \<Rightarrow> state \<times> toast list" where
  "removeAnnotation ident k s =
     ((case k of
         TextKind \<Rightarrow> s\<lparr>textAnnotations := filter (\<lambda>ann. ta_id ann \<noteq> ident) (textAnnotations s)\<rparr>
       | BlurKind \<Rightarrow> s\<lparr>blurAreas := filter (\<lambda>area. ba_id area \<noteq> ident) (blurAreas s)\<rparr>),
      [ToastSuccess ''Annotation removed''])"

text \<open>zoomIn and zoomOut (lines 267-268), the page buttons (lines 508 and 518).\<close>

definition zoomIn :: "state \<Rightarrow> state" where
  "zoomIn s = s\<lparr>scale := min (scale s + 0.2) 3.0\<rparr>"

definition zoomOut :: "state \<Rightarrow> state" where
  "zoomOut s = s\<lparr>scale := max (scale s - 0.2) 0.5\<rparr>"

definition prevPage :: "state \<Rightarrow> state" where
  "prevPage s = s\<lparr>currentPage := max (currentPage s - 1) 1\<rparr>"

definition nextPage :: "state \<Rightarrow> state" where
  "nextPage s = s\<lparr>currentPage := min (currentPage s + 1) (numPages s)\<rparr>"

subsection \<open>Export\<close>













text \<open>
  The value of a colour input, from which \<open>textColor\<close> is set (line 403): the character
  \<open>#\<close> and two lowercase hexadecimal digits for each of the 8-bit components red, green
  and blue.
\<close>

definition hexChar :: "nat \<Rightarrow> 16 word" where
  "hexChar d = (if d < 10 then 0x30 + of_nat d else 0x57 + of_nat d)"

definition hexByte :: "nat \<Rightarrow> jsstring" where
  "hexByte n = [hexChar (n div 16), hexChar (n mod 16)]"

definition colorString :: "nat \<Rightarrow> nat \<Rightarrow> nat \<Rightarrow> jsstring" where
  "colorString r g b = 0x23 # hexByte r @ hexByte g @ hexByte b"

subsection \<open>The component as a transition system\<close>

text \<open>
  The events of the component. Pointer events on the canvas carry what the handler reads
  from the browser. The toolbar, the page buttons and the canvas are rendered only while
  a file is selected (\<open>pdfFile &&\<close>), and a disabled button does not fire.
\<close>

datatype event =
    FileUpload "File option"
  | DocumentLoadSuccess int
  | DocumentLoadError
  | SetActiveTool tool
  | SetNewText jsstring
  | SetFontSize real
  | SetTextColor jsstring
  | CanvasClick "dom_rect option" int mouse_event
  | MouseDown "dom_rect option" mouse_event
  | MouseUp "dom_rect option" int mouse_event
  | RemoveAnnotation jsstring kind
  | ZoomIn
  | ZoomOut
  | PrevPage
  | NextPage

fun handle :: "state \<Rightarrow> event \<Rightarrow> state" where
  "handle s (FileUpload f) = fst (handleFileUpload f s)"
| "handle s (DocumentLoadSuccess n) = fst (onDocumentLoadSuccess n s)"
| "handle s DocumentLoadError = fst (onDocumentLoadError s)"
| "handle s (SetActiveTool t) = s\<lparr>activeTool := t\<rparr>"
| "handle s (SetNewText v) = (if activeTool s = Text then s\<lparr>newText := v\<rparr> else s)"
| "handle s (SetFontSize v) = (if activeTool s = Text then s\<lparr>fontSize := v\<rparr> else s)"
| "handle s (SetTextColor v) = (if activeTool s = Text then s\<lparr>textColor := v\<rparr> else s)"
| "handle s (CanvasClick canvas now e) = fst (handleCanvasClick canvas now s e)"
| "handle s (MouseDown canvas e) = fst (handleMouseDown canvas s e)"
| "handle s (MouseUp canvas now e) = fst (handleMouseUp canvas now s e)"
| "handle s (RemoveAnnotation ident k) = fst (removeAnnotation ident k s)"
| "handle s ZoomIn = (if scale s \<ge> 3.0 then s else zoomIn s)"
| "handle s ZoomOut = (if scale s \<le> 0.5 then s else zoomOut s)"
| "handle s PrevPage = (if currentPage s \<le> 1 then s else prevPage s)"
| "handle s NextPage = (if currentPage s \<ge> numPages s then s else nextPage s)"

definition step :: "state \<Rightarrow> event \<Rightarrow> state" where
  "step s ev =
     (case ev of
        FileUpload f \<Rightarrow> handle s ev
      | _ \<Rightarrow> if pdfFile s = None then s else handle s ev)"

definition run :: "state \<Rightarrow> event list \<Rightarrow> state" where
  "run s evs = foldl step s evs"

definition isMouseUp :: "event \<Rightarrow> bool" where
  "isMouseUp ev = (case ev of MouseUp canvas now e \<Rightarrow> True | _ \<Rightarrow> False)"

subsection \<open>Concrete inputs\<close>

text \<open>A file of PDF media type, a canvas rectangle, and the editor with that file loaded.\<close>

definition pdf0 :: File where
  "pdf0 = \<lparr>file_type = ''application/pdf'', file_bytes = [0x25, 0x50, 0x44, 0x46]\<rparr>"

definition canvas0 :: dom_rect where
  "canvas0 = \<lparr>rect_left = 10, rect_top = 20\<rparr>"

definition ready :: state where
  "ready = initial_state\<lparr>pdfFile := Some pdf0, numPages := 3\<rparr>"

text \<open>The loaded editor with two text annotations and two blur areas.\<close>

definition annotated :: state where
  "annotated = ready
     \<lparr>textAnnotations :=
        [\<lparr>ta_id = toString 1, ta_x = 30, ta_y = 0, ta_text = [0x61], ta_fontSize = 16,
          ta_color = colorString 255 0 10\<rparr>,
         \<lparr>ta_id = toString 2, ta_x = 31, ta_y = 0, ta_text = [0x62], ta_fontSize = 16,
          ta_color = colorString 0 0 0\<rparr>],
      blurAreas :=
        [\<lparr>ba_id = toString 3, ba_x = - 20, ba_y = - 20, ba_width = 20, ba_height = 20\<rparr>,
         \<lparr>ba_id = toString 4, ba_x = 1, ba_y = 1, ba_width = 20, ba_height = 20\<rparr>]\<rparr>"

text \<open>
  A drag is started in blur mode, the tool is switched to Select and back to Blur, and
  the pointer is released on the canvas.
\<close>

definition drag_resumed :: "event list" where
  "drag_resumed =
     [FileUpload (Some pdf0), DocumentLoadSuccess 3, SetActiveTool Blur,
      MouseDown (Some canvas0) \<lparr>clientX = 60, clientY = 70\<rparr>,
      SetActiveTool Select, SetActiveTool Blur,
      MouseUp (Some canvas0) 1000 \<lparr>clientX = 160, clientY = 140\<rparr>]"

text \<open>
  Two placements of text for which \<open>Date.now()\<close> gives the same millisecond.
\<close>

definition same_millisecond :: "event list" where
  "same_millisecond =
     [FileUpload (Some pdf0), DocumentLoadSuccess 3, SetActiveTool Text,
      SetNewText [0x61], CanvasClick (Some canvas0) 1000 \<lparr>clientX = 60, clientY = 70\<rparr>,
      SetNewText [0x62], CanvasClick (Some canvas0) 1000 \<lparr>clientX = 160, clientY = 140\<rparr>]"

section \<open>Properties\<close>

subsection \<open>Auxiliary facts\<close>

lemma trim_empty_iff: "trim s = [] \<longleftrightarrow> (\<forall>c \<in> set s. isWhiteSpace c)"
proof
  assume t: "trim s = []"
  show "\<forall>c \<in> set s. isWhiteSpace c"
  proof (cases "dropWhile isWhiteSpace s = []")
    case True
    then show ?thesis by (simp add: dropWhile_eq_Nil_conv)
  next
    case False
    then have "\<not> isWhiteSpace (hd (dropWhile isWhiteSpace s))"
      by (rule hd_dropWhile)
    moreover have "hd (dropWhile isWhiteSpace s) \<in> set (rev (dropWhile isWhiteSpace s))"
      using False by simp
    moreover from t have "\<forall>c \<in> set (rev (dropWhile isWhiteSpace s)). isWhiteSpace c"
      unfolding trim_def by (simp only: rev_is_Nil_conv dropWhile_eq_Nil_conv)
    ultimately show ?thesis by blast
  qed
next
  assume "\<forall>c \<in> set s. isWhiteSpace c"
  then have "dropWhile isWhiteSpace s = []"
    by (simp add: dropWhile_eq_Nil_conv)
  then show "trim s = []"
    by (simp only: trim_def rev.simps dropWhile.simps)
qed










lemma run_Nil: "run s [] = s"
  by (simp add: run_def)

lemma run_Cons: "run s (ev # evs) = run (step s ev) evs"
  by (simp add: run_def)

lemma handleMouseUp_no_area:
  assumes "\<not> isDrawing s \<or> activeTool s \<noteq> Blur"
  shows "fst (handleMouseUp canvas now s e) = s\<lparr>isDrawing := False, startPoint := None\<rparr>"
  using assms
  by (auto simp add: handleMouseUp_def)

lemma handleMouseDown_not_blur:
  assumes "activeTool s \<noteq> Blur"
  shows "subseq (blurAreas (fst (handleMouseDown canvas s e))) (blurAreas s)"
    and "activeTool (fst (handleMouseDown canvas s e)) = activeTool s"
    and "isDrawing (fst (handleMouseDown canvas s e)) = isDrawing s"
    and "startPoint (fst (handleMouseDown canvas s e)) = startPoint s"
    and "pdfFile (fst (handleMouseDown canvas s e)) = pdfFile s"
  using assms
  by (auto simp add: handleMouseDown_def Let_def split: option.splits)

lemma handleCanvasClick_frame:
  shows "blurAreas (fst (handleCanvasClick canvas now s e)) = blurAreas s"
    and "activeTool (fst (handleCanvasClick canvas now s e)) = activeTool s"
    and "isDrawing (fst (handleCanvasClick canvas now s e)) = isDrawing s"
    and "startPoint (fst (handleCanvasClick canvas now s e)) = startPoint s"
    and "pdfFile (fst (handleCanvasClick canvas now s e)) = pdfFile s"
  by (auto simp add: handleCanvasClick_def Let_def split: option.splits)

lemma handleFileUpload_frame:
  shows "subseq (blurAreas (fst (handleFileUpload f s))) (blurAreas s)"
    and "activeTool (fst (handleFileUpload f s)) = activeTool s"
    and "isDrawing (fst (handleFileUpload f s)) = isDrawing s"
    and "startPoint (fst (handleFileUpload f s)) = startPoint s"
    and "pdfFile s \<noteq> None \<Longrightarrow> pdfFile (fst (handleFileUpload f s)) \<noteq> None"
  by (auto simp add: handleFileUpload_def split: option.splits)

lemma removeAnnotation_frame:
  shows "subseq (blurAreas (fst (removeAnnotation i k s))) (blurAreas s)"
    and "activeTool (fst (removeAnnotation i k s)) = activeTool s"
    and "isDrawing (fst (removeAnnotation i k s)) = isDrawing s"
    and "startPoint (fst (removeAnnotation i k s)) = startPoint s"
    and "pdfFile (fst (removeAnnotation i k s)) = pdfFile s"
  by (auto simp add: removeAnnotation_def split: kind.splits)

lemmas frames = handleMouseDown_not_blur handleCanvasClick_frame handleFileUpload_frame
  removeAnnotation_frame

lemma handle_not_blur:
  assumes "activeTool s \<noteq> Blur" and "ev \<noteq> SetActiveTool Blur"
  shows "activeTool (handle s ev) \<noteq> Blur \<and>
         subseq (blurAreas (handle s ev)) (blurAreas s) \<and>
         (pdfFile s \<noteq> None \<longrightarrow> pdfFile (handle s ev) \<noteq> None) \<and>
         (\<not> isDrawing s \<longrightarrow> \<not> isDrawing (handle s ev)) \<and>
         (startPoint s = None \<longrightarrow> startPoint (handle s ev) = None) \<and>
         (isMouseUp ev \<longrightarrow> \<not> isDrawing (handle s ev) \<and> startPoint (handle s ev) = None)"
proof (cases ev)
  case (FileUpload f)
  then show ?thesis using assms by (simp add: frames isMouseUp_def)
next
  case (DocumentLoadSuccess n)
  then show ?thesis using assms by (simp add: onDocumentLoadSuccess_def isMouseUp_def)
next
  case DocumentLoadError
  then show ?thesis using assms by (simp add: onDocumentLoadError_def isMouseUp_def)
next
  case (SetActiveTool t)
  then show ?thesis using assms by (simp add: isMouseUp_def)
next
  case (SetNewText v)
  then show ?thesis using assms by (simp add: isMouseUp_def)
next
  case (SetFontSize v)
  then show ?thesis using assms by (simp add: isMouseUp_def)
next
  case (SetTextColor v)
  then show ?thesis using assms by (simp add: isMouseUp_def)
next
  case (CanvasClick canvas now e)
  then show ?thesis using assms by (simp add: frames isMouseUp_def)
next
  case (MouseDown canvas e)
  then show ?thesis using assms by (simp add: frames isMouseUp_def)
next
  case (MouseUp canvas now e)
  then show ?thesis using assms by (simp add: handleMouseUp_no_area isMouseUp_def)
next
  case (RemoveAnnotation ident k)
  then show ?thesis using assms by (simp add: frames isMouseUp_def)
next
  case ZoomIn
  then show ?thesis using assms by (simp add: zoomIn_def isMouseUp_def)
next
  case ZoomOut
  then show ?thesis using assms by (simp add: zoomOut_def isMouseUp_def)
next
  case PrevPage
  then show ?thesis using assms by (simp add: prevPage_def isMouseUp_def)
next
  case NextPage
  then show ?thesis using assms by (simp add: nextPage_def isMouseUp_def)
qed

lemma step_cases: "step s ev = s \<and> \<not> (pdfFile s \<noteq> None) \<or> step s ev = handle s ev"
  by (cases ev) (simp_all add: step_def)

lemma step_mouse_up:
  assumes "pdfFile s \<noteq> None" and "isMouseUp ev"
  shows "step s ev = handle s ev"
  using assms by (cases ev) (auto simp add: step_def isMouseUp_def)

lemma step_not_blur:
  assumes "activeTool s \<noteq> Blur" and "ev \<noteq> SetActiveTool Blur"
  shows "activeTool (step s ev) \<noteq> Blur"
    and "subseq (blurAreas (step s ev)) (blurAreas s)"
    and "pdfFile s \<noteq> None \<Longrightarrow> pdfFile (step s ev) \<noteq> None"
    and "\<not> isDrawing s \<Longrightarrow> \<not> isDrawing (step s ev)"
    and "startPoint s = None \<Longrightarrow> startPoint (step s ev) = None"
  using handle_not_blur [OF assms] step_cases [of s ev] assms(1)
  by auto

lemma step_mouse_up_clears:
  assumes "activeTool s \<noteq> Blur" and "pdfFile s \<noteq> None" and "isMouseUp ev"
  shows "\<not> isDrawing (step s ev) \<and> startPoint (step s ev) = None"
proof -
  have "ev \<noteq> SetActiveTool Blur"
    using assms(3) by (auto simp add: isMouseUp_def)
  from handle_not_blur [OF assms(1) this] show ?thesis
    using assms(3) by (simp add: step_mouse_up [OF assms(2,3)])
qed

lemma run_not_blur:
  assumes "activeTool s \<noteq> Blur" and "SetActiveTool Blur \<notin> set evs"
  shows "activeTool (run s evs) \<noteq> Blur \<and> subseq (blurAreas (run s evs)) (blurAreas s) \<and>
         (pdfFile s \<noteq> None \<longrightarrow> pdfFile (run s evs) \<noteq> None) \<and>
         (\<not> isDrawing s \<and> startPoint s = None \<longrightarrow>
            \<not> isDrawing (run s evs) \<and> startPoint (run s evs) = None)"
  using assms
proof (induction evs arbitrary: s)
  case Nil
  then show ?case by (simp add: run_Nil)
next
  case (Cons ev evs)
  then have ev: "ev \<noteq> SetActiveTool Blur" and evs: "SetActiveTool Blur \<notin> set evs"
    by auto
  note st = step_not_blur [OF Cons.prems(1) ev]
  from Cons.IH [OF st(1) evs] st show ?case
    by (auto simp add: run_Cons intro: subseq_order.order_trans)
qed

lemma run_mouse_up_clears:
  assumes "activeTool s \<noteq> Blur" and "SetActiveTool Blur \<notin> set evs"
    and "pdfFile s \<noteq> None" and "\<exists>ev \<in> set evs. isMouseUp ev"
  shows "\<not> isDrawing (run s evs) \<and> startPoint (run s evs) = None"
  using assms
proof (induction evs arbitrary: s)
  case Nil
  then show ?case by simp
next
  case (Cons ev evs)
  then have ev: "ev \<noteq> SetActiveTool Blur" and evs: "SetActiveTool Blur \<notin> set evs"
    by auto
  note st = step_not_blur [OF Cons.prems(1) ev]
  show ?case
  proof (cases "\<exists>ev' \<in> set evs. isMouseUp ev'")
    case True
    from Cons.IH [OF st(1) evs st(3) [OF Cons.prems(3)] True] show ?thesis
      by (simp add: run_Cons)
  next
    case False
    with Cons.prems(4) have "isMouseUp ev" by auto
    from step_mouse_up_clears [OF Cons.prems(1,3) this] run_not_blur [OF st(1) evs]
    show ?thesis by (simp add: run_Cons)
  qed
qed

text \<open>The definitions that evaluate a run of events on a concrete state.\<close>

lemmas eval_defs = run_def step_def handleFileUpload_def onDocumentLoadSuccess_def
  onDocumentLoadError_def handleMouseDown_def handleMouseUp_def handleCanvasClick_def
  removeAnnotation_def initial_state_def pdf0_def canvas0_def toDocumentSpace_def
  trim_def isWhiteSpace_def Let_def

subsection \<open>Blur areas from drags\<close>



subsection \<open>Erasing\<close>



subsection \<open>Export\<close>



subsection \<open>Coordinates\<close>




subsection \<open>Loading a document\<close>

text \<open>
  C5. Accepting a file of PDF media type resets the text annotations and the blur areas
  to empty and the current page to 1, from every state; the file becomes the selected
  one.
\<close>

theorem new_document_resets_annotations:
  assumes "file_type f = ''application/pdf''"
  shows "let s' = fst (handleFileUpload (Some f) s)
         in textAnnotations s' = [] \<and> blurAreas s' = [] \<and> currentPage s' = 1 \<and>
            pdfFile s' = Some f"
  using assms by (simp add: handleFileUpload_def)

theorem new_document_resets_annotations_witness:
  "file_type pdf0 = ''application/pdf'' \<and> textAnnotations annotated \<noteq> [] \<and>
   blurAreas annotated \<noteq> [] \<and>
   textAnnotations (fst (handleFileUpload (Some pdf0) (annotated\<lparr>currentPage := 2\<rparr>))) = [] \<and>
   blurAreas (fst (handleFileUpload (Some pdf0) (annotated\<lparr>currentPage := 2\<rparr>))) = [] \<and>
   currentPage (fst (handleFileUpload (Some pdf0) (annotated\<lparr>currentPage := 2\<rparr>))) = 1"
  using new_document_resets_annotations [of pdf0 "annotated\<lparr>currentPage := 2\<rparr>"]
  by (simp add: pdf0_def annotated_def Let_def)




subsection \<open>Tool switches during a drag\<close>

text \<open>
  C6, as amended. After the tool is switched away from Blur, and as long as it is not
  switched back to Blur, no event creates a blur area: the collection after any such
  events is a subsequence of the one before. The first pointer-up on the canvas among
  these events clears the pending drag, and from then on switching back to Blur and
  releasing the pointer creates nothing.
\<close>

theorem pending_drag_dropped_while_tool_not_blur:
  assumes "pdfFile s \<noteq> None" and "t \<noteq> Blur" and "SetActiveTool Blur \<notin> set evs"
  shows "let s' = run (step s (SetActiveTool t)) evs
         in subseq (blurAreas s') (blurAreas s) \<and>
            ((\<exists>ev \<in> set evs. isMouseUp ev) \<longrightarrow>
               \<not> isDrawing s' \<and> startPoint s' = None \<and>
               (\<forall>canvas now e.
                  blurAreas (run s' [SetActiveTool Blur, MouseUp canvas now e]) = blurAreas s'))"
proof -
  define s1 where "s1 = step s (SetActiveTool t)"
  have s1: "activeTool s1 \<noteq> Blur" "pdfFile s1 \<noteq> None" "blurAreas s1 = blurAreas s"
    using assms(1,2) by (auto simp add: s1_def step_def)
  have after: "blurAreas (run s' [SetActiveTool Blur, MouseUp canvas now e]) = blurAreas s'"
    if "\<not> isDrawing s'" for s' canvas now e
    using that by (simp add: run_Cons run_Nil step_def handleMouseUp_no_area)
  from run_not_blur [OF s1(1) assms(3)] run_mouse_up_clears [OF s1(1) assms(3) s1(2)] after
  show ?thesis
    unfolding Let_def s1_def [symmetric] s1(3) [symmetric] by blast
qed

theorem pending_drag_dropped_while_tool_not_blur_witness:
  "pdfFile (ready\<lparr>activeTool := Blur, isDrawing := True, startPoint := Some (50, 50)\<rparr>) \<noteq> None \<and>
   Select \<noteq> Blur \<and>
   SetActiveTool Blur \<notin> set [MouseUp (Some canvas0) 1000 \<lparr>clientX = 160, clientY = 140\<rparr>] \<and>
   blurAreas (run (step (ready\<lparr>activeTool := Blur, isDrawing := True, startPoint := Some (50, 50)\<rparr>)
                     (SetActiveTool Select))
                [MouseUp (Some canvas0) 1000 \<lparr>clientX = 160, clientY = 140\<rparr>]) = [] \<and>
   \<not> isDrawing (run (step (ready\<lparr>activeTool := Blur, isDrawing := True, startPoint := Some (50, 50)\<rparr>)
                     (SetActiveTool Select))
                [MouseUp (Some canvas0) 1000 \<lparr>clientX = 160, clientY = 140\<rparr>])"
  using pending_drag_dropped_while_tool_not_blur
          [of "ready\<lparr>activeTool := Blur, isDrawing := True, startPoint := Some (50, 50)\<rparr>"
              Select "[MouseUp (Some canvas0) 1000 \<lparr>clientX = 160, clientY = 140\<rparr>]"]
  by (auto simp add: ready_def initial_state_def isMouseUp_def Let_def dest: list_emb_Nil2)

text \<open>
  C6 as stated fails: the tool switch leaves the drag pending, and after switching back
  to Blur the pointer-up completes it.
\<close>

theorem tool_switch_cancels_drag_counterexample:
  "isDrawing (run initial_state (take 5 drag_resumed)) \<and>
   activeTool (run initial_state (take 5 drag_resumed)) = Select \<and>
   blurAreas (run initial_state drag_resumed) =
     [\<lparr>ba_id = toString 1000, ba_x = 50, ba_y = 50, ba_width = 100, ba_height = 70\<rparr>]"
  by (simp add: drag_resumed_def eval_defs)

subsection \<open>Text placement\<close>

text \<open>
  C8. A click on the canvas in text mode while the pending text is empty changes nothing
  in the state (so no annotation is created and the tool is still Text) and reports the
  validation failure.
\<close>

theorem empty_text_click_rejected:
  assumes "activeTool s = Text" and "newText s = []"
  shows "handleCanvasClick (Some r) now s e =
           (s, [ToastError ''Please enter text before placing it on the PDF''])"
  using assms by (simp add: handleCanvasClick_def trim_def)

theorem empty_text_click_rejected_witness:
  "activeTool (ready\<lparr>activeTool := Text\<rparr>) = Text \<and> newText (ready\<lparr>activeTool := Text\<rparr>) = [] \<and>
   handleCanvasClick (Some canvas0) 1000 (ready\<lparr>activeTool := Text\<rparr>) \<lparr>clientX = 60, clientY = 70\<rparr> =
     (ready\<lparr>activeTool := Text\<rparr>, [ToastError ''Please enter text before placing it on the PDF''])"
  using empty_text_click_rejected
          [of "ready\<lparr>activeTool := Text\<rparr>" canvas0 1000 "\<lparr>clientX = 60, clientY = 70\<rparr>"]
  by (simp add: ready_def initial_state_def)

text \<open>
  C10. In text mode, a click while the pending text consists of white space only is
  rejected like an empty one: the state is unchanged (no annotation, pending text kept)
  and the validation failure is reported. A pending text with a character that is not
  white space is placed: the annotation is appended and the pending text cleared.
\<close>

theorem whitespace_text_click_rejected:
  assumes "activeTool s = Text" and "0.5 \<le> scale s" and "scale s \<le> 3"
  shows "((\<forall>c \<in> set (newText s). isWhiteSpace c) \<longrightarrow>
            handleCanvasClick (Some r) now s e =
              (s, [ToastError ''Please enter text before placing it on the PDF''])) \<and>
         ((\<exists>c \<in> set (newText s). \<not> isWhiteSpace c) \<longrightarrow>
            handleCanvasClick (Some r) now s e =
              (s\<lparr>textAnnotations := textAnnotations s @
                    [\<lparr>ta_id = toString now,
                      ta_x = toDocumentSpace (clientX e) (rect_left r) (scale s),
                      ta_y = toDocumentSpace (clientY e) (rect_top r) (scale s),
                      ta_text = newText s, ta_fontSize = fontSize s, ta_color = textColor s\<rparr>],
                  newText := []\<rparr>,
               [ToastSuccess ''Text annotation added'']))"
  using assms(1) by (auto simp add: handleCanvasClick_def trim_empty_iff Let_def)

theorem whitespace_text_click_rejected_witness:
  "activeTool (ready\<lparr>activeTool := Text, newText := [0x20, 0x09, 0x3000]\<rparr>) = Text \<and>
   0.5 \<le> scale (ready\<lparr>activeTool := Text, newText := [0x20, 0x09, 0x3000]\<rparr>) \<and>
   scale (ready\<lparr>activeTool := Text, newText := [0x20, 0x09, 0x3000]\<rparr>) \<le> 3 \<and>
   isWhiteSpace 0x20 \<and> isWhiteSpace 0x09 \<and> isWhiteSpace 0x3000 \<and>
   handleCanvasClick (Some canvas0) 1000 (ready\<lparr>activeTool := Text, newText := [0x20, 0x09, 0x3000]\<rparr>)
       \<lparr>clientX = 60, clientY = 70\<rparr> =
     (ready\<lparr>activeTool := Text, newText := [0x20, 0x09, 0x3000]\<rparr>,
      [ToastError ''Please enter text before placing it on the PDF'']) \<and>
   \<not> isWhiteSpace 0x61 \<and>
   textAnnotations
     (fst (handleCanvasClick (Some canvas0) 1000 (ready\<lparr>activeTool := Text, newText := [0x20, 0x61]\<rparr>)
             \<lparr>clientX = 60, clientY = 70\<rparr>)) =
     [\<lparr>ta_id = toString 1000, ta_x = 50, ta_y = 50, ta_text = [0x20, 0x61], ta_fontSize = 16,
       ta_color = colorString 0 0 0\<rparr>]"
  using whitespace_text_click_rejected
          [of "ready\<lparr>activeTool := Text, newText := [0x20, 0x09, 0x3000]\<rparr>" canvas0 1000
              "\<lparr>clientX = 60, clientY = 70\<rparr>"]
        whitespace_text_click_rejected
          [of "ready\<lparr>activeTool := Text, newText := [0x20, 0x61]\<rparr>" canvas0 1000
              "\<lparr>clientX = 60, clientY = 70\<rparr>"]
  by (simp add: ready_def initial_state_def isWhiteSpace_def canvas0_def toDocumentSpace_def
        colorString_def hexByte_def hexChar_def)

subsection \<open>Identifiers\<close>

text \<open>
  C9 fails on the code. The identifier is the clock value in milliseconds, so two
  annotations created in the same millisecond get the same identifier, and removing one
  of them by its identifier removes both.
\<close>

theorem duplicate_ids_in_same_millisecond:
  "map ta_text (textAnnotations (run initial_state same_millisecond)) = [[0x61], [0x62]] \<and>
   map ta_id (textAnnotations (run initial_state same_millisecond)) = [toString 1000, toString 1000] \<and>
   \<not> distinct (map ta_id (textAnnotations (run initial_state same_millisecond))) \<and>
   textAnnotations (step (run initial_state same_millisecond)
                      (RemoveAnnotation (toString 1000) TextKind)) = []"
  by (simp add: same_millisecond_def eval_defs)

end
